theory Spec2Isabelle
  imports Main
begin

section \<open>Vectors, the sparse cost matrix and the priority queue\<close>

text \<open>
  The solver of \<^verbatim>\<open>lap.cpp\<close> works on \<^verbatim>\<open>std::vector<int>\<close> and raw \<^verbatim>\<open>int\<close> arrays that
  are indexed by \<^verbatim>\<open>int\<close> values and that hold row and column numbers, with \<open>-1\<close> for
  "unassigned". A vector is a list; \<open>vget\<close> and \<open>vset\<close> are the unchecked
  \<^verbatim>\<open>operator[]\<close>. Integers are mathematical integers: signed overflow is undefined in the
  source, so the model describes the runs without overflow.
\<close>

definition vget :: "'a list \<Rightarrow> int \<Rightarrow> 'a" where
  "vget xs i = xs ! nat i"

definition vset :: "'a list \<Rightarrow> int \<Rightarrow> 'a \<Rightarrow> 'a list" where
  "vset xs i x = xs[nat i := x]"

text \<open>
  Modelled from the spec: the class \<^verbatim>\<open>sigma_matrix\<close> (header \<^verbatim>\<open>sigma_matrix.hpp\<close>) is not
  among the sources. The spec gives its contract: a square matrix of which every row exposes
  its stored \<open>(column, cost)\<close> entries in ascending column order, absent entries being
  implicitly of infinite cost; \<open>dimension\<close>; the lookup \<open>cost(row, col)\<close> (the call operator, here \<open>assigncost\<close>); and
  \<open>smallest_cost_row(col)\<close>, the row of minimum cost in a column. The sentinel \<^verbatim>\<open>BIG\<close> is
  declared in the same missing header, so every function that uses it takes it as the
  parameter \<open>big\<close>; an absent entry reads as \<open>big\<close>. Among rows of equal cost
  \<open>smallest_cost_row\<close> returns the first.
\<close>

type_synonym row = "(int \<times> int) list"
type_synonym sigma_matrix = "row list"

definition dimension :: "sigma_matrix \<Rightarrow> int" where
  "dimension m = int (length m)"

definition findRow :: "sigma_matrix \<Rightarrow> int \<Rightarrow> row" where
  "findRow m i = vget m i"

definition assigncost :: "int \<Rightarrow> sigma_matrix \<Rightarrow> int \<Rightarrow> int \<Rightarrow> int" where
  "assigncost big m i j = (case map_of (findRow m i) j of Some c \<Rightarrow> c | None \<Rightarrow> big)"

fun smallest_from :: "int \<Rightarrow> sigma_matrix \<Rightarrow> int \<Rightarrow> int \<Rightarrow> int list \<Rightarrow> int" where
  "smallest_from big m j imin [] = imin"
| "smallest_from big m j imin (i # is) =
     (if assigncost big m i j < assigncost big m imin j then smallest_from big m j i is
      else smallest_from big m j imin is)"

definition smallest_cost_row :: "int \<Rightarrow> sigma_matrix \<Rightarrow> int \<Rightarrow> int" where
  "smallest_cost_row big m j = smallest_from big m j 0 (map int [1..<length m])"

text \<open>
  The priority queue is \<^verbatim>\<open>boost::heap::d_ary_heap\<close> with the comparator \<^verbatim>\<open>node_compare\<close>,
  which orders columns by their current \<open>dist\<close> label. It is modelled by its contract: the
  queue holds the pushed columns (a column pushed twice is held twice), \<open>top\<close> is an entry
  of least label, the earliest pushed among equals, and \<open>pop\<close> removes that entry.
  Labels are read when \<open>top\<close> is taken, so \<^verbatim>\<open>pq.update\<close> has nothing to do.
\<close>

fun pq_min :: "int list \<Rightarrow> int \<Rightarrow> int list \<Rightarrow> int" where
  "pq_min dist b [] = b"
| "pq_min dist b (j # js) =
     (if vget dist j < vget dist b then pq_min dist j js else pq_min dist b js)"

definition pq_top :: "int list \<Rightarrow> int list \<Rightarrow> int" where
  "pq_top dist q = pq_min dist (hd q) (tl q)"

definition pq_pop :: "int list \<Rightarrow> int list \<Rightarrow> int list" where
  "pq_pop dist q = remove1 (pq_top dist q) q"

definition pq_push :: "int list \<Rightarrow> int \<Rightarrow> int list" where
  "pq_push q j = q @ [j]"

section \<open>Augmentation state\<close>

record augmentation_data =
  in_todo :: "bool list"
  ready :: "int list"
  is_ready :: "bool list"
  prev :: "int list"
  scan :: "int list"
  dist :: "int list"
  pq :: "int list"

text \<open>The constructor \<^verbatim>\<open>augmentation_data(dim)\<close>: value-initialised vectors of size \<open>dim\<close>.\<close>

definition new_data :: "int \<Rightarrow> augmentation_data" where
  "new_data dim =
     \<lparr>in_todo = replicate (nat dim) False, ready = [], is_ready = replicate (nat dim) False,
      prev = replicate (nat dim) 0, scan = [], dist = replicate (nat dim) 0, pq = []\<rparr>"

text \<open>\<^verbatim>\<open>std::fill\<close> overwrites every element and keeps the size.\<close>

definition fill :: "'a list \<Rightarrow> 'a \<Rightarrow> 'a list" where
  "fill xs x = replicate (length xs) x"

definition reset :: "int \<Rightarrow> augmentation_data \<Rightarrow> augmentation_data" where
  "reset start d =
     d\<lparr>is_ready := fill (is_ready d) False,
       in_todo := fill (in_todo d) False,
       prev := fill (prev d) start,
       pq := [],
       ready := [],
       scan := []\<rparr>"


section \<open>Augmenting path search\<close>

datatype error = EmptyQueue | EmptyScan | EmptyRow

text \<open>The two loops over the start row: first the labels, then the queue.\<close>

definition seed_dist :: "int list \<Rightarrow> row \<Rightarrow> int list \<Rightarrow> int list" where
  "seed_dist vv start_row ds = foldl (\<lambda>ds (j, c). vset ds j (c - vget vv j)) ds start_row"

definition seed_queue :: "row \<Rightarrow> augmentation_data \<Rightarrow> augmentation_data" where
  "seed_queue start_row d =
     foldl (\<lambda>d (j, c). d\<lparr>pq := pq_push (pq d) j, in_todo := vset (in_todo d) j True\<rparr>)
       d start_row"

text \<open>
  \<^verbatim>\<open>while (!pq.empty() && !in_todo[pq.top()]) pq.pop();\<close> Every round removes an entry, so
  the loop ends.
\<close>

function drop_stale :: "augmentation_data \<Rightarrow> augmentation_data" where
  "drop_stale d =
     (if pq d \<noteq> [] \<and> \<not> vget (in_todo d) (pq_top (dist d) (pq d))
      then drop_stale (d\<lparr>pq := pq_pop (dist d) (pq d)\<rparr>)
      else d)"
  by pat_completeness auto
termination
proof (relation "measure (\<lambda>d. length (pq d))")
  show "wf (measure (\<lambda>d. length (pq d)))" by simp
next
  fix d :: augmentation_data
  assume a: "pq d \<noteq> [] \<and> \<not> vget (in_todo d) (pq_top (dist d) (pq d))"
  have mem: "pq_min ds b js \<in> set (b # js)" for ds b js
    by (induction js arbitrary: b) auto
  from a obtain b js where q: "pq d = b # js" by (cases "pq d") auto
  have "pq_top (dist d) (pq d) \<in> set (pq d)"
    using mem [of "dist d" b js] by (simp add: pq_top_def q)
  then have "length (pq_pop (dist d) (pq d)) < length (pq d)"
    unfolding pq_pop_def using q by (simp only: length_remove1 if_True) simp
  then show "(d\<lparr>pq := pq_pop (dist d) (pq d)\<rparr>, d) \<in> measure (\<lambda>d. length (pq d))"
    by simp
qed

text \<open>
  The loop that moves every queued column of label \<open>min\<close> to \<open>scan\<close>, or stops at the
  first unassigned one (\<^verbatim>\<open>goto augment\<close>, the result \<open>Some j\<close>). When the top entry has
  label \<open>min\<close> and is not in \<open>todo\<close>, the body changes nothing and the loop does not
  end: the value is \<open>None\<close>.
\<close>

partial_function (option) take_min ::
  "int list \<Rightarrow> int \<Rightarrow> augmentation_data \<Rightarrow> (int option \<times> augmentation_data) option" where
  "take_min csol mn d =
     (if pq d \<noteq> [] \<and> vget (dist d) (pq_top (dist d) (pq d)) = mn then
        (let j = pq_top (dist d) (pq d) in
         if vget (in_todo d) j then
           (if vget csol j < 0 then Some (Some j, d)
            else take_min csol mn
                   (d\<lparr>scan := scan d @ [j],
                      in_todo := vset (in_todo d) j False,
                      pq := pq_pop (dist d) (pq d)\<rparr>))
         else take_min csol mn d)
      else Some (None, d))"

text \<open>The condition under which a round of that loop changes nothing.\<close>

definition stale_top :: "int \<Rightarrow> augmentation_data \<Rightarrow> bool" where
  "stale_top mn d =
     (pq d \<noteq> [] \<and> vget (dist d) (pq_top (dist d) (pq d)) = mn \<and>
      \<not> vget (in_todo d) (pq_top (dist d) (pq d)))"

text \<open>
  The block \<^verbatim>\<open>if (data.scan.empty()) { ... }\<close>: it returns the end of the path if one was
  found, the current \<open>min\<close> and the state. \<^verbatim>\<open>pq.top()\<close> of an empty queue is the error
  \<open>EmptyQueue\<close>.
\<close>

definition find_min ::
  "int list \<Rightarrow> int \<Rightarrow> augmentation_data \<Rightarrow>
   (error + int option \<times> int \<times> augmentation_data) option" where
  "find_min csol mn d =
     (if scan d = [] then
        (let d1 = drop_stale d in
         if pq d1 = [] then Some (Inl EmptyQueue)
         else
           (let mn1 = vget (dist d1) (pq_top (dist d1) (pq d1)) in
            case take_min csol mn1 d1 of
              None \<Rightarrow> None
            | Some (e, d2) \<Rightarrow> Some (Inr (e, mn1, d2))))
      else Some (Inr (None, mn, d)))"

text \<open>
  The loop over the stored columns of row \<open>i\<close> (\<^verbatim>\<open>//sparse version of: forall j in TODO\<close>):
  \<open>relax_col\<close> is its body for the entry \<open>(j, c)\<close>, and \<open>Some j\<close> is the jump to
  \<^verbatim>\<open>augment\<close> with end of path \<open>j\<close>, which leaves the loop.
\<close>

definition relax_col ::
  "int list \<Rightarrow> int list \<Rightarrow> int \<Rightarrow> int \<Rightarrow> int \<Rightarrow> int \<Rightarrow> int \<Rightarrow> augmentation_data \<Rightarrow>
   int option \<times> augmentation_data" where
  "relax_col vv csol i h mn j c d =
     (if vget (is_ready d) j then (None, d)
      else
        (let c_red = c - vget vv j - h in
         if \<not> vget (in_todo d) j \<or> mn + c_red < vget (dist d) j then
           (let d1 = d\<lparr>dist := vset (dist d) j (mn + c_red), prev := vset (prev d) j i\<rparr> in
            if 0 = c_red then
              (if vget csol j < 0 then (Some j, d1)
               else (None, d1\<lparr>scan := scan d1 @ [j], in_todo := vset (in_todo d1) j False\<rparr>))
            else
              (if \<not> vget (in_todo d1) j then
                 (None, d1\<lparr>pq := pq_push (pq d1) j, in_todo := vset (in_todo d1) j True\<rparr>)
               else (None, d1)))
         else (None, d)))"

fun relax ::
  "int list \<Rightarrow> int list \<Rightarrow> int \<Rightarrow> int \<Rightarrow> int \<Rightarrow> row \<Rightarrow> augmentation_data \<Rightarrow>
   int option \<times> augmentation_data" where
  "relax vv csol i h mn [] d = (None, d)"
| "relax vv csol i h mn ((j, c) # cols) d =
     (case relax_col vv csol i h mn j c d of
        (Some e, d1) \<Rightarrow> (Some e, d1)
      | (None, d1) \<Rightarrow> relax vv csol i h mn cols d1)"

text \<open>
  The rest of the body of the search loop: take the last column of \<open>scan\<close>, make it
  ready and relax the row that holds it. \<^verbatim>\<open>scan.back()\<close> of an empty vector is the error
  \<open>EmptyScan\<close>.
\<close>

definition expand ::
  "int \<Rightarrow> sigma_matrix \<Rightarrow> int list \<Rightarrow> int list \<Rightarrow> int \<Rightarrow> augmentation_data \<Rightarrow>
   error + int option \<times> augmentation_data" where
  "expand big m vv csol mn d =
     (if scan d = [] then Inl EmptyScan
      else
        (let j1 = last (scan d);
             i = vget csol j1;
             d1 = d\<lparr>scan := butlast (scan d),
                    ready := ready d @ [j1],
                    is_ready := vset (is_ready d) j1 True\<rparr>;
             h = assigncost big m i j1 - vget vv j1
         in Inr (relax vv csol i h mn (findRow m i) d1)))"

text \<open>The \<^verbatim>\<open>do { ... } while(true)\<close> loop; it returns the end of the path, \<open>min\<close> and the state.\<close>

partial_function (option) search ::
  "int \<Rightarrow> sigma_matrix \<Rightarrow> int list \<Rightarrow> int list \<Rightarrow> int \<Rightarrow> augmentation_data \<Rightarrow>
   (error + int \<times> int \<times> augmentation_data) option" where
  "search big m vv csol mn d =
     (case find_min csol mn d of
        None \<Rightarrow> None
      | Some (Inl err) \<Rightarrow> Some (Inl err)
      | Some (Inr (Some e, mn1, d1)) \<Rightarrow> Some (Inr (e, mn1, d1))
      | Some (Inr (None, mn1, d1)) \<Rightarrow>
          (case expand big m vv csol mn1 d1 of
             Inl err \<Rightarrow> Some (Inl err)
           | Inr (Some e, d2) \<Rightarrow> Some (Inr (e, mn1, d2))
           | Inr (None, d2) \<Rightarrow> search big m vv csol mn1 d2))"

text \<open>The price update over \<open>ready\<close>, in the order the columns were made ready.\<close>

definition update_prices :: "int list \<Rightarrow> augmentation_data \<Rightarrow> int \<Rightarrow> int list" where
  "update_prices vv d mn =
     foldl (\<lambda>vv j. vset vv j (vget vv j + vget (dist d) j - mn)) vv (ready d)"

text \<open>The \<^verbatim>\<open>do { ... } while(i != start)\<close> loop that flips the assignment along the path.\<close>

partial_function (option) flip_path ::
  "int \<Rightarrow> int list \<Rightarrow> int \<Rightarrow> int list \<Rightarrow> int list \<Rightarrow> (int list \<times> int list) option" where
  "flip_path start prv endofpath rsol csol =
     (let i = vget prv endofpath;
          csol1 = vset csol endofpath i;
          j1 = endofpath;
          endofpath1 = vget rsol i;
          rsol1 = vset rsol i j1
      in if i \<noteq> start then flip_path start prv endofpath1 rsol1 csol1
         else Some (rsol1, csol1))"

text \<open>
  \<open>augment\<close> changes \<open>data\<close>, \<open>v\<close>, \<open>rowsol\<close> and \<open>colsol\<close> through references;
  the model returns the four.
\<close>

definition augment ::
  "int \<Rightarrow> augmentation_data \<Rightarrow> sigma_matrix \<Rightarrow> int list \<Rightarrow> int \<Rightarrow> int list \<Rightarrow> int list \<Rightarrow>
   (error + augmentation_data \<times> int list \<times> int list \<times> int list) option" where
  "augment big dat m vv start rsol csol =
     (let d0 = reset start dat;
          start_row = findRow m start;
          d1 = d0\<lparr>dist := seed_dist vv start_row (dist d0)\<rparr>;
          d2 = seed_queue start_row d1
      in case search big m vv csol 0 d2 of
           None \<Rightarrow> None
         | Some (Inl err) \<Rightarrow> Some (Inl err)
         | Some (Inr (endofpath, mn, d3)) \<Rightarrow>
             (case flip_path start (prev d3) endofpath rsol csol of
                None \<Rightarrow> None
              | Some (rsol1, csol1) \<Rightarrow>
                  Some (Inr (d3, update_prices vv d3 mn, rsol1, csol1))))"

text \<open>\<^verbatim>\<open>for (f = 0; f < numfree; f++) augment(data, assigncost, v, free[f], rowsol, colsol);\<close>\<close>

fun augment_all ::
  "int \<Rightarrow> sigma_matrix \<Rightarrow> int list \<Rightarrow>
   augmentation_data \<times> int list \<times> int list \<times> int list \<Rightarrow>
   (error + augmentation_data \<times> int list \<times> int list \<times> int list) option" where
  "augment_all big m [] st = Some (Inr st)"
| "augment_all big m (start # starts) (dat, vv, rsol, csol) =
     (case augment big dat m vv start rsol csol of
        None \<Rightarrow> None
      | Some (Inl err) \<Rightarrow> Some (Inl err)
      | Some (Inr st1) \<Rightarrow> augment_all big m starts st1)"

section \<open>The solution and the full solver\<close>

record solution =
  cost :: int
  rowsol :: "int list"
  colsol :: "int list"
  u :: "int list"
  v :: "int list"

text \<open>
  The local variables of \<open>lap\<close> that the reduction phases work on, besides \<open>v\<close>,
  \<open>rowsol\<close> and \<open>colsol\<close>.
\<close>

record lap_vars = solution +
  free :: "int list"
  matches :: "int list"
  numfree :: int
  k :: int
  j2 :: int

text \<open>
  The vectors \<open>u\<close>, \<open>v\<close>, \<open>rowsol\<close>, \<open>colsol\<close> and the array \<open>matches\<close> start as
  zeros; \<^verbatim>\<open>free = new int[dim]\<close> is not initialised, so its first content \<open>free0\<close> is a
  parameter.
\<close>

definition lap_init :: "sigma_matrix \<Rightarrow> int list \<Rightarrow> lap_vars" where
  "lap_init m free0 =
     \<lparr>cost = 0, rowsol = replicate (length m) 0, colsol = replicate (length m) 0,
      u = replicate (length m) 0, v = replicate (length m) 0,
      free = free0, matches = replicate (length m) 0, numfree = 0, k = 0, j2 = 0\<rparr>"

subsection \<open>Column reduction\<close>

definition column_step :: "int \<Rightarrow> sigma_matrix \<Rightarrow> lap_vars \<Rightarrow> int \<Rightarrow> lap_vars" where
  "column_step big m s j =
     (let imin = smallest_cost_row big m j;
          s1 = s\<lparr>v := vset (v s) j (assigncost big m imin j),
                 matches := vset (matches s) imin (vget (matches s) imin + 1)\<rparr>
      in if vget (matches s1) imin = 1
         then s1\<lparr>rowsol := vset (rowsol s1) imin j, colsol := vset (colsol s1) j imin\<rparr>
         else s1\<lparr>colsol := vset (colsol s1) j (- 1)\<rparr>)"

definition column_reduction :: "int \<Rightarrow> sigma_matrix \<Rightarrow> lap_vars \<Rightarrow> lap_vars" where
  "column_reduction big m s = foldl (column_step big m) s (rev (map int [0..<length m]))"

subsection \<open>Reduction transfer\<close>

definition transfer_min :: "int \<Rightarrow> int list \<Rightarrow> int \<Rightarrow> row \<Rightarrow> int" where
  "transfer_min big vv j1 r =
     foldl (\<lambda>mn (j, c). if j \<noteq> j1 then (if c - vget vv j < mn then c - vget vv j else mn) else mn)
       big r"

definition transfer_step :: "int \<Rightarrow> sigma_matrix \<Rightarrow> lap_vars \<Rightarrow> int \<Rightarrow> lap_vars" where
  "transfer_step big m s i =
     (if vget (matches s) i = 0
      then s\<lparr>free := vset (free s) (numfree s) i, numfree := numfree s + 1\<rparr>
      else if vget (matches s) i = 1
      then (let j1 = vget (rowsol s) i;
                mn = transfer_min big (v s) j1 (findRow m i)
            in s\<lparr>v := vset (v s) j1 (vget (v s) j1 - mn)\<rparr>)
      else s)"

definition reduction_transfer :: "int \<Rightarrow> sigma_matrix \<Rightarrow> lap_vars \<Rightarrow> lap_vars" where
  "reduction_transfer big m s = foldl (transfer_step big m) s (map int [0..<length m])"

subsection \<open>Augmenting row reduction\<close>

text \<open>
  The scan of a row for its minimum and second minimum reduced cost: the loop over the
  columns after the first, on \<open>(umin, usubmin, j1, j2)\<close>.
\<close>

fun row_minima :: "int list \<Rightarrow> row \<Rightarrow> int \<times> int \<times> int \<times> int \<Rightarrow> int \<times> int \<times> int \<times> int" where
  "row_minima vv [] acc = acc"
| "row_minima vv ((j, c) # cols) (umin, usubmin, j1, j2a) =
     (let h = c - vget vv j in
      if h < usubmin then
        (if h \<ge> umin then row_minima vv cols (umin, h, j1, j)
         else row_minima vv cols (h, umin, j, j1))
      else row_minima vv cols (umin, usubmin, j1, j2a))"

text \<open>
  One round of \<^verbatim>\<open>while (k < prvnumfree)\<close>: the free row \<open>free[k]\<close> is given a column.
  Reading the first column of a row without stored entries is the error \<open>EmptyRow\<close>.
\<close>

definition row_step :: "int \<Rightarrow> sigma_matrix \<Rightarrow> lap_vars \<Rightarrow> error + lap_vars" where
  "row_step big m s =
     (let i = vget (free s) (k s);
          k1 = k s + 1
      in case findRow m i of
           [] \<Rightarrow> Inl EmptyRow
         | (j0, c0) # cols \<Rightarrow>
             (let (umin, usubmin, j1, j2a) =
                    row_minima (v s) cols (c0 - vget (v s) j0, big, j0, j2 s);
                  i0 = vget (colsol s) j1;
                  v1 = (if umin < usubmin
                        then vset (v s) j1 (vget (v s) j1 - (usubmin - umin)) else v s);
                  swap = (\<not> umin < usubmin \<and> i0 \<ge> 0);
                  j1a = (if swap then j2a else j1);
                  i0a = (if swap then vget (colsol s) j2a else i0);
                  s1 = s\<lparr>v := v1, rowsol := vset (rowsol s) i j1a,
                         colsol := vset (colsol s) j1a i, k := k1, j2 := j2a\<rparr>
              in Inr (if i0a \<ge> 0 then
                        (if umin < usubmin
                         then s1\<lparr>k := k1 - 1, free := vset (free s1) (k1 - 1) i0a\<rparr>
                         else s1\<lparr>free := vset (free s1) (numfree s1) i0a,
                                 numfree := numfree s1 + 1\<rparr>)
                      else s1)))"

partial_function (option) row_scan ::
  "int \<Rightarrow> sigma_matrix \<Rightarrow> int \<Rightarrow> lap_vars \<Rightarrow> (error + lap_vars) option" where
  "row_scan big m prvnumfree s =
     (if k s < prvnumfree then
        (case row_step big m s of
           Inl err \<Rightarrow> Some (Inl err)
         | Inr s1 \<Rightarrow> row_scan big m prvnumfree s1)
      else Some (Inr s))"

text \<open>One round of the \<^verbatim>\<open>do { ... } while (loopcnt < 2)\<close> loop, and the two rounds.\<close>

definition row_pass :: "int \<Rightarrow> sigma_matrix \<Rightarrow> lap_vars \<Rightarrow> (error + lap_vars) option" where
  "row_pass big m s = row_scan big m (numfree s) (s\<lparr>k := 0, numfree := 0\<rparr>)"

definition augmenting_row_reduction ::
  "int \<Rightarrow> sigma_matrix \<Rightarrow> lap_vars \<Rightarrow> (error + lap_vars) option" where
  "augmenting_row_reduction big m s =
     (case row_pass big m s of
        None \<Rightarrow> None
      | Some (Inl err) \<Rightarrow> Some (Inl err)
      | Some (Inr s1) \<Rightarrow> row_pass big m s1)"

subsection \<open>Cost and row duals\<close>

text \<open>
  The last loop, shared by \<open>lap\<close> and \<open>delta_lap\<close>:
  \<^verbatim>\<open>u[i] = assigncost(i,j) - v[j]; lapcost = lapcost + assigncost(i,j);\<close> with \<open>j = rowsol[i]\<close>.
\<close>

definition finish_step ::
  "int \<Rightarrow> sigma_matrix \<Rightarrow> int list \<Rightarrow> int list \<Rightarrow> int list \<times> int \<Rightarrow> int \<Rightarrow> int list \<times> int" where
  "finish_step big m vv rsol acc i =
     (let j = vget rsol i
      in (vset (fst acc) i (assigncost big m i j - vget vv j),
          snd acc + assigncost big m i j))"

definition finish ::
  "int \<Rightarrow> sigma_matrix \<Rightarrow> int list \<Rightarrow> int list \<Rightarrow> int list \<Rightarrow> int list \<Rightarrow> solution" where
  "finish big m uu vv rsol csol =
     (let (u1, lapcost) =
            foldl (finish_step big m vv rsol) (uu, 0) (map int [0..<length rsol])
      in \<lparr>cost = lapcost, rowsol = rsol, colsol = csol, u = u1, v = vv\<rparr>)"

subsection \<open>lap\<close>

text \<open>The three reduction phases, up to the message "Done LAP initialization".\<close>

definition lap_reduce ::
  "int \<Rightarrow> sigma_matrix \<Rightarrow> int list \<Rightarrow> (error + lap_vars) option" where
  "lap_reduce big m free0 =
     augmenting_row_reduction big m
       (reduction_transfer big m (column_reduction big m (lap_init m free0)))"

definition lap_run :: "int \<Rightarrow> sigma_matrix \<Rightarrow> int list \<Rightarrow> (error + solution) option" where
  "lap_run big m free0 =
     (case lap_reduce big m free0 of
        None \<Rightarrow> None
      | Some (Inl err) \<Rightarrow> Some (Inl err)
      | Some (Inr s) \<Rightarrow>
          (case augment_all big m (map (vget (free s)) (map int [0..<nat (numfree s)]))
                  (new_data (dimension m), v s, rowsol s, colsol s) of
             None \<Rightarrow> None
           | Some (Inl err) \<Rightarrow> Some (Inl err)
           | Some (Inr (dat, vv, rsol, csol)) \<Rightarrow> Some (Inr (finish big m (u s) vv rsol csol))))"

definition lap :: "int \<Rightarrow> sigma_matrix \<Rightarrow> (error + solution) option" where
  "lap big m = lap_run big m (replicate (length m) 0)"

section \<open>The delta solver\<close>

text \<open>The first loop of \<open>delta_lap\<close>: the column prices the augmentation starts from.\<close>

definition delta_price :: "int \<Rightarrow> sigma_matrix \<Rightarrow> int list \<Rightarrow> int list \<Rightarrow> int list \<Rightarrow> int \<Rightarrow> int" where
  "delta_price big m u0 v0 csol j =
     (if vget csol j \<ge> 0 then vget v0 j
      else foldl (\<lambda>x i2. min x (assigncost big m i2 j - vget u0 i2)) big
             (map int [0..<length m]))"

definition delta_prices :: "int \<Rightarrow> sigma_matrix \<Rightarrow> int list \<Rightarrow> int list \<Rightarrow> int list \<Rightarrow> int list" where
  "delta_prices big m u0 v0 csol =
     foldl (\<lambda>vv j. vset vv j (delta_price big m u0 v0 csol j))
       (replicate (length m) 0) (map int [0..<length m])"

text \<open>The second loop: the rows without a column, in ascending order.\<close>

definition delta_free :: "int list \<Rightarrow> int list" where
  "delta_free rsol = filter (\<lambda>i. vget rsol i < 0) (map int [0..<length rsol])"

definition delta_lap ::
  "int \<Rightarrow> sigma_matrix \<Rightarrow> int list \<Rightarrow> int list \<Rightarrow> int list \<Rightarrow> int list \<Rightarrow>
   (error + solution) option" where
  "delta_lap big m u0 v0 rsol0 csol0 =
     (case augment_all big m (delta_free rsol0)
             (new_data (dimension m), delta_prices big m u0 v0 csol0, rsol0, csol0) of
        None \<Rightarrow> None
      | Some (Inl err) \<Rightarrow> Some (Inl err)
      | Some (Inr (dat, vv, rsol, csol)) \<Rightarrow>
          Some (Inr (finish big m (replicate (length m) 0) vv rsol csol)))"

section \<open>What a solution has to satisfy\<close>

text \<open>
  An assignment gives every row one of its stored columns, and no column twice; its cost
  is the sum of the entries it takes.
\<close>

definition is_assignment :: "sigma_matrix \<Rightarrow> int list \<Rightarrow> bool" where
  "is_assignment m sg = (list_all2 (\<lambda>r j. j \<in> fst ` set r) m sg \<and> distinct sg)"

definition assignment_cost :: "int \<Rightarrow> sigma_matrix \<Rightarrow> int list \<Rightarrow> int" where
  "assignment_cost big m sg =
     sum_list (map (\<lambda>i. assigncost big m i (vget sg i)) (map int [0..<length m]))"

text \<open>
  Dual feasibility of a solution: no stored entry has a negative reduced cost, and the entry
  a row is matched to has reduced cost zero.
\<close>

definition reduced_cost :: "solution \<Rightarrow> int \<Rightarrow> int \<Rightarrow> int \<Rightarrow> int" where
  "reduced_cost s i j c = c - vget (u s) i - vget (v s) j"

definition row_feasible :: "int \<Rightarrow> sigma_matrix \<Rightarrow> solution \<Rightarrow> int \<Rightarrow> bool" where
  "row_feasible big m s i =
     (list_all (\<lambda>(j, c). 0 \<le> reduced_cost s i j c) (findRow m i) \<and>
      reduced_cost s i (vget (rowsol s) i) (assigncost big m i (vget (rowsol s) i)) = 0)"

definition dual_feasible :: "int \<Rightarrow> sigma_matrix \<Rightarrow> solution \<Rightarrow> bool" where
  "dual_feasible big m s = list_all (row_feasible big m s) (map int [0..<length m])"

section \<open>Example matrices\<close>

text \<open>
  A dense matrix of dimension four. Every column has one least entry, and the only time
  the search asks the queue for its top while columns of equal label could be returned, the
  answer is compared with a smaller \<open>min\<close>; the run is the same for any order among
  equal labels.
\<close>

definition dense4 :: sigma_matrix where
  "dense4 =
     [[(0, 3), (1, 5), (2, 2), (3, 5)],
      [(0, 2), (1, 4), (2, 0), (3, 4)],
      [(0, 4), (1, 4), (2, 1), (3, 4)],
      [(0, 0), (1, 0), (2, 1), (3, 3)]]"

text \<open>
  A sparse matrix of dimension six with the perfect matching of rows 0 to 5 on columns
  2, 1, 3, 0, 4, 5. In the run of \<open>lap\<close> on it the queue never holds two different
  columns of least label when its top is taken.
\<close>

definition sparse6 :: sigma_matrix where
  "sparse6 =
     [[(1, 0), (2, 1), (3, 0), (4, 0), (5, 0)],
      [(0, 1), (1, 2), (4, 0), (5, 0)],
      [(0, 2), (1, 0), (3, 2), (4, 0)],
      [(0, 0), (4, 2)],
      [(0, 0), (1, 2), (4, 2), (5, 1)],
      [(0, 0), (4, 0), (5, 0)]]"

text \<open>
  The state of \<open>lap\<close> on \<open>dense4\<close> when the first pass of the augmenting row reduction
  has handled rows 0 and 3 and turns to row 2.
\<close>

definition dense4_pass1 :: lap_vars where
  "dense4_pass1 =
     \<lparr>cost = 0, rowsol = [3, 2, 0, 0], colsol = [3, - 1, 1, 0], u = [0, 0, 0, 0],
      v = [0, 0, - 1, 2], free = [3, 2, 0, 0], matches = [0, 1, 0, 3],
      numfree = 0, k = 1, j2 = 1\<rparr>"

section \<open>The column prices of the delta solver, in the words of the specification\<close>

text \<open>The minimum over all rows \<open>i\<close> of \<open>cost(i, j) - u_prior[i]\<close>.\<close>

definition min_over_rows :: "int \<Rightarrow> sigma_matrix \<Rightarrow> int list \<Rightarrow> int \<Rightarrow> int" where
  "min_over_rows big m u0 j =
     Min (set (map (\<lambda>i. assigncost big m i j - vget u0 i) (map int [0..<length m])))"

text \<open>The loops defined as partial functions are run by unfolding their equations.\<close>

declare take_min.simps [code] search.simps [code] flip_path.simps [code] row_scan.simps [code]

section \<open>Properties of reset\<close>

lemma fill_fill: "fill (fill xs x) y = fill xs y"
  by (simp add: fill_def)

text \<open>
  Claim C8. Resetting twice with the same start row gives the state that resetting once
  gives: flags, predecessors, queue, ready list, scan list and labels all agree.
\<close>

theorem reset_idempotent: "reset start (reset start d) = reset start d"
  by (simp add: reset_def fill_fill)

text \<open>
  Claim C10. \<open>reset\<close> leaves the \<open>dist\<close> labels as they were; the other six
  fields are the ones it rewrites.
\<close>

theorem reset_keeps_dist:
  "dist (reset start d) = dist d \<and>
   reset start d =
     d\<lparr>in_todo := in_todo (reset start d), is_ready := is_ready (reset start d),
       prev := prev (reset start d), pq := pq (reset start d),
       ready := ready (reset start d), scan := scan (reset start d)\<rparr>"
  by (simp add: reset_def)

section \<open>The solver on the dense example\<close>

lemma upt_4: "[0..<4] = [0, 1, 2, 3]" "[1..<4] = [1, 2, 3]" "[0..<1] = [0]"
  by (simp_all add: upt_rec)

lemma replicate_4: "replicate 4 x = [x, x, x, x]"
  by (simp add: numeral_eq_Suc)

text \<open>
  The run on \<open>dense4\<close> does not depend on the value of \<^verbatim>\<open>BIG\<close>, as long as it exceeds
  the reduced costs that are compared with it.
\<close>

lemma lap_dense4_any_big:
  "6 \<le> big \<Longrightarrow>
   lap big dense4 =
     Some (Inr \<lparr>cost = 9, rowsol = [3, 2, 0, 1], colsol = [2, 3, 1, 0],
                u = [3, 1, 2, 0], v = [2, 0, - 1, 2]\<rparr>)"
  by (simp add: lap_def lap_run_def finish_def finish_step_def dimension_def
      lap_reduce_def augmenting_row_reduction_def row_pass_def row_scan.simps row_step_def
      reduction_transfer_def transfer_step_def transfer_min_def column_reduction_def
      column_step_def lap_init_def upt_4 replicate_4 smallest_cost_row_def
      augment_def new_data_def reset_def fill_def seed_dist_def seed_queue_def search.simps
      find_min_def take_min.simps expand_def relax_col_def flip_path.simps update_prices_def
      drop_stale.simps pq_top_def pq_pop_def pq_push_def
      dense4_def assigncost_def findRow_def vget_def vset_def Let_def)

lemma lap_dense4:
  "lap 100000 dense4 =
     Some (Inr \<lparr>cost = 9, rowsol = [3, 2, 0, 1], colsol = [2, 3, 1, 0],
                u = [3, 1, 2, 0], v = [2, 0, - 1, 2]\<rparr>)"
  by (rule lap_dense4_any_big) simp

text \<open>
  Claim C1 fails on the code. On \<open>dense4\<close> the solver returns an assignment of cost 9,
  and rows 0, 1, 2, 3 on columns 0, 2, 3, 1 cost 7. In the search from row 1, column 0 is
  put on \<open>scan\<close> with label 1 and predecessor row 0; the relaxation of row 2 then finds
  it neither ready nor in \<open>todo\<close>, takes it for a new column, and overwrites the label
  with 3 and the predecessor with row 2, so the path that is flipped is not a shortest one.
\<close>

theorem lap_not_optimal:
  "map_option (map_sum id cost) (lap 100000 dense4) = Some (Inr 9) \<and>
   is_assignment dense4 [0, 2, 3, 1] \<and>
   assignment_cost 100000 dense4 [0, 2, 3, 1] = 7"
proof -
  have a: "is_assignment dense4 [0, 2, 3, 1]" by code_simp
  have c: "assignment_cost 100000 dense4 [0, 2, 3, 1] = 7" by code_simp
  show ?thesis using a c by (simp add: lap_dense4)
qed

text \<open>
  Claim C2 fails on the code, by the same run: the overwritten label of column 0 enters the
  price update, \<open>v[0]\<close> becomes 2, and the stored entry of row 3 in column 0, of cost 0,
  has reduced cost \<open>0 - u[3] - v[0] = -2\<close>.
\<close>

theorem lap_not_dual_feasible:
  "lap 100000 dense4 =
     Some (Inr \<lparr>cost = 9, rowsol = [3, 2, 0, 1], colsol = [2, 3, 1, 0],
                u = [3, 1, 2, 0], v = [2, 0, - 1, 2]\<rparr>) \<and>
   \<not> dual_feasible 100000 dense4
       \<lparr>cost = 9, rowsol = [3, 2, 0, 1], colsol = [2, 3, 1, 0],
        u = [3, 1, 2, 0], v = [2, 0, - 1, 2]\<rparr> \<and>
   map_of (findRow dense4 3) 0 = Some 0 \<and>
   reduced_cost \<lparr>cost = 9, rowsol = [3, 2, 0, 1], colsol = [2, 3, 1, 0],
                 u = [3, 1, 2, 0], v = [2, 0, - 1, 2]\<rparr> 3 0 0 = - 2"
proof -
  let ?s = "\<lparr>cost = 9, rowsol = [3, 2, 0, 1], colsol = [2, 3, 1, 0],
             u = [3, 1, 2, 0], v = [2, 0, - 1, 2]\<rparr>"
  have a: "\<not> dual_feasible 100000 dense4 ?s" by code_simp
  have b: "map_of (findRow dense4 3) 0 = Some 0" by code_simp
  have c: "reduced_cost ?s 3 0 0 = - 2" by code_simp
  show ?thesis using a b c by (simp add: lap_dense4)
qed

section \<open>Termination of the search\<close>

lemma take_min_Some_not_stale:
  assumes a: "take_min csol mn d = Some y"
  shows "\<not> stale_top mn d"
  apply (rule take_min.raw_induct [where P = "\<lambda>csol mn d y. \<not> stale_top mn d", OF _ a])
  subgoal premises prems for f csol mn d y
  proof
    assume s: "stale_top mn d"
    with prems(2) have "f csol mn d = Some y"
      by (simp add: Let_def stale_top_def)
    from prems(1) [OF this] s show False by simp
  qed
  done

text \<open>
  When the top of the queue has label \<open>min\<close> and is not in \<open>todo\<close>, the loop that
  collects the columns of label \<open>min\<close> does not end.
\<close>

lemma take_min_spin: "stale_top mn d \<Longrightarrow> take_min csol mn d = None"
  using take_min_Some_not_stale [of csol mn d] by (cases "take_min csol mn d") auto

lemma take_min_step:
  "\<not> stale_top mn d \<Longrightarrow>
   take_min csol mn d =
     (if pq d \<noteq> [] \<and> vget (dist d) (pq_top (dist d) (pq d)) = mn then
        (if vget csol (pq_top (dist d) (pq d)) < 0
         then Some (Some (pq_top (dist d) (pq d)), d)
         else take_min csol mn
                (d\<lparr>scan := scan d @ [pq_top (dist d) (pq d)],
                   in_todo := vset (in_todo d) (pq_top (dist d) (pq d)) False,
                   pq := pq_pop (dist d) (pq d)\<rparr>))
      else Some (None, d))"
  by (subst take_min.simps) (auto simp: stale_top_def Let_def)

lemma upt_6: "[0..<6] = [0, 1, 2, 3, 4, 5]" "[1..<6] = [1, 2, 3, 4, 5]"
  by (simp_all add: upt_rec)

lemma replicate_6: "replicate 6 x = [x, x, x, x, x, x]"
  by (simp add: numeral_eq_Suc)

text \<open>
  On \<open>sparse6\<close> the reduction phases leave row 2 free. In the search from row 2,
  column 0 is queued with label 4, put on \<open>scan\<close> with label 0 (its queue entry stays),
  then found by the relaxation of row 1 while it waits on \<open>scan\<close>, taken for a new
  column and queued a second time. Both entries have label 1 when \<open>min\<close> becomes 1: the
  first is moved to \<open>scan\<close>, which clears the \<open>todo\<close> flag of column 0, and the second
  stays on top of the queue for ever.
\<close>

lemma lap_sparse6_any_big: "6 \<le> big \<Longrightarrow> lap big sparse6 = None"
  by (simp add: lap_def lap_run_def finish_def finish_step_def dimension_def
      lap_reduce_def augmenting_row_reduction_def row_pass_def row_scan.simps row_step_def
      reduction_transfer_def transfer_step_def transfer_min_def column_reduction_def
      column_step_def lap_init_def upt_6 upt_4 replicate_6 smallest_cost_row_def
      augment_def new_data_def reset_def fill_def seed_dist_def seed_queue_def search.simps
      find_min_def take_min_step take_min_spin stale_top_def expand_def relax_col_def
      flip_path.simps update_prices_def drop_stale.simps pq_top_def pq_pop_def pq_push_def
      sparse6_def assigncost_def findRow_def vget_def vset_def Let_def)

text \<open>
  Claim C4 fails on the code: \<open>sparse6\<close> has a perfect matching of finite cost, and
  \<open>lap\<close> does not return on it.
\<close>

theorem lap_does_not_return:
  "is_assignment sparse6 [2, 1, 3, 0, 4, 5] \<and>
   assignment_cost 100000 sparse6 [2, 1, 3, 0, 4, 5] = 7 \<and>
   lap 100000 sparse6 = None"
proof -
  have a: "is_assignment sparse6 [2, 1, 3, 0, 4, 5]" by code_simp
  have c: "assignment_cost 100000 sparse6 [2, 1, 3, 0, 4, 5] = 7" by code_simp
  have n: "lap 100000 sparse6 = None" by (rule lap_sparse6_any_big) simp
  show ?thesis using a c n by simp
qed

section \<open>The tie in the augmenting row reduction\<close>

lemma dense4_pass1_reached:
  "(case row_step 100000 dense4
           ((reduction_transfer 100000 dense4
               (column_reduction 100000 dense4 (lap_init dense4 [0, 0, 0, 0])))
            \<lparr>k := 0, numfree := 0\<rparr>) of
      Inl err \<Rightarrow> Inl err
    | Inr s \<Rightarrow> row_step 100000 dense4 s) = Inr dense4_pass1"
  by (simp add: row_step_def reduction_transfer_def transfer_step_def transfer_min_def
      column_reduction_def column_step_def lap_init_def upt_4 replicate_4 smallest_cost_row_def
      dense4_def dense4_pass1_def assigncost_def findRow_def vget_def vset_def Let_def)

text \<open>
  Claim C5 fails on the code. In \<open>lap\<close> on \<open>dense4\<close>, row 2 has its two least reduced
  costs equal, in columns 2 and 3. Both columns are assigned (to rows 1 and 0). The row is
  given the alternate column 3 all the same, and row 0 loses it.
\<close>

theorem tie_takes_assigned_alternate:
  "vget (free dense4_pass1) (k dense4_pass1) = 2 \<and>
   row_minima (v dense4_pass1) [(1, 4), (2, 1), (3, 4)] (4 - vget (v dense4_pass1) 0, 100000, 0, 1)
     = (2, 2, 2, 3) \<and>
   vget (colsol dense4_pass1) 2 = 1 \<and>
   vget (colsol dense4_pass1) 3 = 0 \<and>
   map_sum id (\<lambda>s. (vget (rowsol s) 2, vget (colsol s) 3, vget (colsol s) 2))
     (row_step 100000 dense4 dense4_pass1) = Inr (3, 2, 1)"
  by (simp add: row_step_def dense4_def dense4_pass1_def findRow_def vget_def vset_def Let_def)

text \<open>
  Claim C5 as amended. When the two least reduced costs of the free row are equal and the
  minimum column \<open>j1\<close> is assigned, the row is given the alternate column \<open>j2\<close> whether
  \<open>j2\<close> is free or not; no price changes; and if \<open>j2\<close> was assigned, the row that held
  it is stored in the list of free rows for the next pass.
\<close>

theorem tie_takes_alternate:
  assumes "findRow m (vget (free s) (k s)) = (j0, c0) # cols"
    and "row_minima (v s) cols (c0 - vget (v s) j0, big, j0, j2 s) = (umin, usubmin, j1, j2a)"
    and "umin = usubmin"
    and "0 \<le> vget (colsol s) j1"
  shows "row_step big m s =
     Inr (if 0 \<le> vget (colsol s) j2a
          then s\<lparr>rowsol := vset (rowsol s) (vget (free s) (k s)) j2a,
                 colsol := vset (colsol s) j2a (vget (free s) (k s)),
                 k := k s + 1, j2 := j2a,
                 free := vset (free s) (numfree s) (vget (colsol s) j2a),
                 numfree := numfree s + 1\<rparr>
          else s\<lparr>rowsol := vset (rowsol s) (vget (free s) (k s)) j2a,
                 colsol := vset (colsol s) j2a (vget (free s) (k s)),
                 k := k s + 1, j2 := j2a\<rparr>)"
  using assms by (simp add: row_step_def Let_def)

theorem tie_takes_alternate_witness:
  "findRow dense4 (vget (free dense4_pass1) (k dense4_pass1)) = (0, 4) # [(1, 4), (2, 1), (3, 4)] \<and>
   row_minima (v dense4_pass1) [(1, 4), (2, 1), (3, 4)] (4 - vget (v dense4_pass1) 0, 100000, 0, j2 dense4_pass1)
     = (2, 2, 2, 3) \<and>
   0 \<le> vget (colsol dense4_pass1) 2 \<and>
   row_step 100000 dense4 dense4_pass1 =
     Inr \<lparr>cost = 0, rowsol = [3, 2, 3, 0], colsol = [3, - 1, 1, 2], u = [0, 0, 0, 0],
          v = [0, 0, - 1, 2], free = [0, 2, 0, 0], matches = [0, 1, 0, 3],
          numfree = 1, k = 2, j2 = 3\<rparr>"
proof -
  have a: "findRow dense4 (vget (free dense4_pass1) (k dense4_pass1))
             = (0, 4) # [(1, 4), (2, 1), (3, 4)]"
    by (simp add: dense4_def dense4_pass1_def findRow_def vget_def)
  have b: "row_minima (v dense4_pass1) [(1, 4), (2, 1), (3, 4)]
             (4 - vget (v dense4_pass1) 0, 100000, 0, j2 dense4_pass1) = (2, 2, 2, 3)"
    by (simp add: dense4_pass1_def vget_def)
  have c: "0 \<le> vget (colsol dense4_pass1) 2"
    by (simp add: dense4_pass1_def vget_def)
  show ?thesis
    using tie_takes_alternate [OF a b refl c] a b c
    by (simp add: dense4_pass1_def vget_def vset_def)
qed

section \<open>The column prices of the delta solver\<close>

lemma foldl_min_Min:
  "foldl (\<lambda>x i. min x (f i)) b xs = (if xs = [] then b else min b (Min (set (map f xs))))"
proof (induction xs arbitrary: b)
  case Nil
  show ?case by simp
next
  case (Cons a xs)
  show ?case
  proof (cases "xs = []")
    case True
    then show ?thesis by simp
  next
    case False
    then show ?thesis using Cons [of "min b (f a)"] by (simp add: min.assoc)
  qed
qed

lemma length_foldl_update:
  "length (foldl (\<lambda>xs j. xs[h j := g j]) ys js) = length ys"
  by (induction js arbitrary: ys) simp_all

lemma foldl_update_upt:
  "j < n \<Longrightarrow> n \<le> length ys \<Longrightarrow> foldl (\<lambda>xs j. xs[j := g j]) ys [0..<n] ! j = g j"
proof (induction n arbitrary: j)
  case 0
  then show ?case by simp
next
  case (Suc n)
  show ?case
  proof (cases "j = n")
    case True
    with Suc.prems show ?thesis
      by (simp add: length_foldl_update)
  next
    case False
    with Suc.prems have "j < n" by simp
    with Suc.IH [of j] Suc.prems False show ?thesis
      by simp
  qed
qed

lemma delta_prices_nth:
  assumes "j < length m"
  shows "delta_prices big m u0 v0 csol ! j = delta_price big m u0 v0 csol (int j)"
proof -
  have "delta_prices big m u0 v0 csol =
          foldl (\<lambda>xs j. xs[j := delta_price big m u0 v0 csol (int j)])
            (replicate (length m) 0) [0..<length m]"
    by (simp add: delta_prices_def foldl_map vset_def)
  then show ?thesis
    using assms
      foldl_update_upt [of j "length m" "replicate (length m) 0"
        "\<lambda>j. delta_price big m u0 v0 csol (int j)"]
    by simp
qed

text \<open>
  Claim C7 fails on the code. The price of an unassigned column starts as \<^verbatim>\<open>BIG\<close> and is
  lowered by the rows, so it never exceeds \<^verbatim>\<open>BIG\<close>: with one row, the entry 5 and the
  prior dual \<open>-100001\<close> the minimum over the rows is 100006 and the price is 100000.
\<close>

theorem delta_price_not_row_minimum:
  "vget [- 1] 0 < (0::int) \<and>
   vget (delta_prices 100000 [[(0, 5)]] [- 100001] [0] [- 1]) 0 = 100000 \<and>
   min_over_rows 100000 [[(0, 5)]] [- 100001] 0 = 100006"
  by (simp add: delta_prices_def delta_price_def min_over_rows_def assigncost_def findRow_def
      vget_def vset_def)

text \<open>
  Claim C7 as amended. For a column \<open>j\<close> that is unassigned in the supplied solution the
  price is the smaller of \<^verbatim>\<open>BIG\<close> and the minimum over all rows \<open>i\<close> of
  \<open>cost(i, j) - u_prior[i]\<close>; for an assigned column it is the supplied price.
\<close>

theorem delta_prices_capped:
  assumes "0 \<le> j" and "j < dimension m"
  shows "vget (delta_prices big m u0 v0 csol) j =
           (if 0 \<le> vget csol j then vget v0 j else min big (min_over_rows big m u0 j))"
proof -
  from assms have n: "nat j < length m" and m: "m \<noteq> []"
    by (auto simp: dimension_def)
  have "vget (delta_prices big m u0 v0 csol) j = delta_price big m u0 v0 csol j"
    using delta_prices_nth [OF n] assms by (simp add: vget_def)
  also have "\<dots> = (if 0 \<le> vget csol j then vget v0 j else min big (min_over_rows big m u0 j))"
    using m by (simp add: delta_price_def min_over_rows_def foldl_min_Min)
  finally show ?thesis .
qed

theorem delta_prices_capped_witness:
  "(0::int) \<le> 1 \<and> 1 < dimension [[(0, 5), (1, 3)], [(1, 4)]] \<and>
   vget (delta_prices 100 [[(0, 5), (1, 3)], [(1, 4)]] [1, 2] [7, 8] [0, - 1]) 1 = 2 \<and>
   vget (delta_prices 100 [[(0, 5), (1, 3)], [(1, 4)]] [1, 2] [7, 8] [0, - 1]) 0 = 7"
proof -
  have a: "(0::int) \<le> 1" by simp
  have b: "1 < dimension [[(0, 5), (1, 3)], [(1, 4)]]" by (simp add: dimension_def)
  have c: "(0::int) \<le> 0" by simp
  have d: "0 < dimension [[(0, 5), (1, 3)], [(1, 4)]]" by (simp add: dimension_def)
  show ?thesis
    using delta_prices_capped [OF a b, of 100 "[1, 2]" "[7, 8]" "[0, - 1]"]
      delta_prices_capped [OF c d, of 100 "[1, 2]" "[7, 8]" "[0, - 1]"] a b
    by (simp add: min_over_rows_def assigncost_def findRow_def vget_def)
qed

end
